theory Spec2Isabelle
  imports Main
begin

section \<open>temporal-hijri: the Hijri calendar bridge of HijriCalendar.ts\<close>

text \<open>
  A shallow embedding of the class \<^verbatim>\<open>HijriCalendar\<close> (src/calendars/HijriCalendar.ts).
  The class holds an injected \<^verbatim>\<open>CalendarEngine\<close> of the package hijri-core and an
  identifier. The engine, the JavaScript \<^verbatim>\<open>Date\<close> object and the Temporal value types
  are not part of the repository:
  \<^item> the engine is a record of functions, a parameter of every theorem;
  \<^item> a \<^verbatim>\<open>Date\<close> is a value of an arbitrary type \<open>'d\<close>; the local-time constructor
    \<^verbatim>\<open>new Date(y, m, d)\<close> and the three UTC getters the class calls are fields of a
    record \<open>'d jsHost\<close>, again a parameter (they depend on the host's time zone);
  \<^item> a \<^verbatim>\<open>Temporal.PlainDate\<close> is its three ISO fields, a \<^verbatim>\<open>Temporal.Duration\<close> its four
    date fields. The two Temporal operations of the class that can throw on their own,
    \<^verbatim>\<open>date.add({ days })\<close> and \<^verbatim>\<open>new Temporal.Duration(...)\<close>, are fields of \<open>'d jsHost\<close> as
    well and return a sum; the ones that cannot are defined below. JavaScript numbers
    are \<open>int\<close>.
  A thrown \<^verbatim>\<open>RangeError\<close> is the left summand of the result.
\<close>

subsection \<open>Data\<close>

datatype error = RangeError string

record plainDate =
  isoYear :: int
  isoMonth :: int
  isoDay :: int

record hijriDate =
  hy :: int
  hm :: int
  hd :: int

record duration =
  years :: int
  months :: int
  weeks :: int
  days :: int

datatype overflow = Constrain | Reject

record addOptions =
  overflow :: "overflow option"

datatype dateUnit = Year | Years | Month | Months | Week | Weeks | Day | Days | Auto


record 'd calendarEngine =
  eng_id :: string
  eng_toHijri :: "'d \<Rightarrow> hijriDate option"
  eng_toGregorian :: "int \<Rightarrow> int \<Rightarrow> int \<Rightarrow> 'd option"
  eng_daysInMonth :: "int \<Rightarrow> int \<Rightarrow> int"

record 'd jsHost =
  newDate :: "int \<Rightarrow> int \<Rightarrow> int \<Rightarrow> 'd"
  getUTCFullYear :: "'d \<Rightarrow> int"
  getUTCMonth :: "'d \<Rightarrow> int"
  getUTCDate :: "'d \<Rightarrow> int"
  plainDate_add :: "plainDate \<Rightarrow> int \<Rightarrow> error + plainDate"
  newDuration :: "int \<Rightarrow> int \<Rightarrow> int \<Rightarrow> int \<Rightarrow> error + duration"

record 'd hijriCalendar =
  engine :: "'d calendarEngine"
  cal_id :: string

text \<open>The constructor: \<^verbatim>\<open>this.id = `hijri-${engine.id}`\<close>.\<close>

definition HijriCalendar :: "'d calendarEngine \<Rightarrow> 'd hijriCalendar" where
  "HijriCalendar e = \<lparr>engine = e, cal_id = ''hijri-'' @ eng_id e\<rparr>"

subsection \<open>Month normalisation of dateAdd\<close>

text \<open>
  The two \<^verbatim>\<open>while\<close> loops of \<^verbatim>\<open>dateAdd\<close>, on the pair \<open>(newHy, newHm)\<close>:
  \<^verbatim>\<open>while (newHm > 12) { newHm -= 12; newHy++; }\<close> and
  \<^verbatim>\<open>while (newHm < 1) { newHm += 12; newHy--; }\<close>.
\<close>

function carryMonths :: "int \<Rightarrow> int \<Rightarrow> int \<times> int" where
  "carryMonths newHy newHm =
     (if newHm > 12 then carryMonths (newHy + 1) (newHm - 12) else (newHy, newHm))"
  by pat_completeness auto
termination
  by (relation "measure (\<lambda>(newHy, newHm). nat (newHm - 12))") auto

function borrowMonths :: "int \<Rightarrow> int \<Rightarrow> int \<times> int" where
  "borrowMonths newHy newHm =
     (if newHm < 1 then borrowMonths (newHy - 1) (newHm + 12) else (newHy, newHm))"
  by pat_completeness auto
termination
  by (relation "measure (\<lambda>(newHy, newHm). nat (1 - newHm))") auto

definition normalizeMonths :: "int \<Rightarrow> int \<Rightarrow> int \<times> int" where
  "normalizeMonths newHy newHm =
     (case carryMonths newHy newHm of (y1, m1) \<Rightarrow> borrowMonths y1 m1)"

subsection \<open>The ISO calendar of Temporal.PlainDate\<close>

text \<open>
  The class reads \<^verbatim>\<open>date.year\<close>, \<^verbatim>\<open>date.month\<close>, \<^verbatim>\<open>date.day\<close>, \<^verbatim>\<open>date.dayOfWeek\<close> and
  \<^verbatim>\<open>date.toString()\<close>, and calls \<^verbatim>\<open>one.until(two, ...)\<close>. These are the proleptic
  Gregorian rules, here through the day number counted from 1970-01-01.
\<close>

definition daysFromCivil :: "int \<Rightarrow> int \<Rightarrow> int \<Rightarrow> int" where
  "daysFromCivil y m d =
     (let y1 = (if m \<le> 2 then y - 1 else y);
          era = y1 div 400;
          yoe = y1 - era * 400;
          mp = (m + 9) mod 12;
          doy = (153 * mp + 2) div 5 + d - 1;
          doe = yoe * 365 + yoe div 4 - yoe div 100 + doy
      in era * 146097 + doe - 719468)"

definition civilFromDays :: "int \<Rightarrow> plainDate" where
  "civilFromDays z =
     (let z1 = z + 719468;
          era = z1 div 146097;
          doe = z1 - era * 146097;
          yoe = (doe - doe div 1460 + doe div 36524 - doe div 146096) div 365;
          doy = doe - (365 * yoe + yoe div 4 - yoe div 100);
          mp = (5 * doy + 2) div 153;
          d = doy - (153 * mp + 2) div 5 + 1;
          m = (if mp < 10 then mp + 3 else mp - 9);
          y = yoe + era * 400
      in \<lparr>isoYear = (if m \<le> 2 then y + 1 else y), isoMonth = m, isoDay = d\<rparr>)"

definition epochDays :: "plainDate \<Rightarrow> int" where
  "epochDays date = daysFromCivil (isoYear date) (isoMonth date) (isoDay date)"

text \<open>\<^verbatim>\<open>date.dayOfWeek\<close>: Monday is 1, Sunday is 7; 1970-01-01 was a Thursday.\<close>

definition plainDate_dayOfWeek :: "plainDate \<Rightarrow> int" where
  "plainDate_dayOfWeek date = (epochDays date + 3) mod 7 + 1"



subsection \<open>Numbers and dates as text\<close>

definition digitChar :: "nat \<Rightarrow> char" where
  "digitChar n = ''0123456789'' ! (n mod 10)"

function decimal :: "nat \<Rightarrow> string" where
  "decimal n = (if n < 10 then [digitChar n] else decimal (n div 10) @ [digitChar (n mod 10)])"
  by pat_completeness auto
termination
  by (relation "measure (\<lambda>n. n)") auto

text \<open>The text of an integral JavaScript number, as a template literal prints it.\<close>

definition numberToString :: "int \<Rightarrow> string" where
  "numberToString i = (if i < 0 then CHR ''-'' # decimal (nat (- i)) else decimal (nat i))"

definition padStart :: "nat \<Rightarrow> char \<Rightarrow> string \<Rightarrow> string" where
  "padStart n c s = replicate (n - length s) c @ s"

text \<open>\<^verbatim>\<open>date.toString()\<close>: \<^verbatim>\<open>YYYY-MM-DD\<close>, with a sign and six digits for a year outside
  0..9999.\<close>

definition plainDate_toString :: "plainDate \<Rightarrow> string" where
  "plainDate_toString date =
     (let y = isoYear date;
          ys = (if 0 \<le> y \<and> y \<le> 9999 then padStart 4 (CHR ''0'') (decimal (nat y))
                else (if y < 0 then ''-'' else ''+'') @ padStart 6 (CHR ''0'') (decimal (nat \<bar>y\<bar>)))
      in ys @ ''-'' @ padStart 2 (CHR ''0'') (numberToString (isoMonth date))
            @ ''-'' @ padStart 2 (CHR ''0'') (numberToString (isoDay date)))"

subsection \<open>The coordinate bridge\<close>

text \<open>
  \<^verbatim>\<open>toHijri\<close>: \<^verbatim>\<open>new Date(date.year, date.month - 1, date.day)\<close> goes to the engine; an
  absent answer throws. \<^verbatim>\<open>fromHijri\<close>: the engine's \<^verbatim>\<open>Date\<close> is read through its UTC
  getters; an absent answer throws.
\<close>

definition toHijri :: "'d jsHost \<Rightarrow> 'd hijriCalendar \<Rightarrow> plainDate \<Rightarrow> error + hijriDate" where
  "toHijri H this date =
     (let jsDate = newDate H (isoYear date) (isoMonth date - 1) (isoDay date)
      in case eng_toHijri (engine this) jsDate of
           None \<Rightarrow> Inl (RangeError (''Date '' @ plainDate_toString date
                     @ '' is out of range for the '' @ cal_id this @ '' calendar''))
         | Some hijri \<Rightarrow> Inr hijri)"

definition fromHijri :: "'d jsHost \<Rightarrow> 'd hijriCalendar \<Rightarrow> int \<Rightarrow> int \<Rightarrow> int \<Rightarrow> error + plainDate" where
  "fromHijri H this y m d =
     (case eng_toGregorian (engine this) y m d of
        None \<Rightarrow> Inl (RangeError (''Hijri date '' @ numberToString y @ ''/'' @ numberToString m
                  @ ''/'' @ numberToString d
                  @ '' is out of range for the '' @ cal_id this @ '' calendar''))
      | Some greg \<Rightarrow> Inr \<lparr>isoYear = getUTCFullYear H greg,
                           isoMonth = getUTCMonth H greg + 1,
                           isoDay = getUTCDate H greg\<rparr>)"

subsection \<open>Field accessors and metrics\<close>

definition year :: "'d jsHost \<Rightarrow> 'd hijriCalendar \<Rightarrow> plainDate \<Rightarrow> error + int" where
  "year H this date = (case toHijri H this date of Inl e \<Rightarrow> Inl e | Inr h \<Rightarrow> Inr (hy h))"

definition month :: "'d jsHost \<Rightarrow> 'd hijriCalendar \<Rightarrow> plainDate \<Rightarrow> error + int" where
  "month H this date = (case toHijri H this date of Inl e \<Rightarrow> Inl e | Inr h \<Rightarrow> Inr (hm h))"

definition monthCode :: "'d jsHost \<Rightarrow> 'd hijriCalendar \<Rightarrow> plainDate \<Rightarrow> error + string" where
  "monthCode H this date =
     (case toHijri H this date of Inl e \<Rightarrow> Inl e
      | Inr h \<Rightarrow> Inr (''M'' @ padStart 2 (CHR ''0'') (numberToString (hm h))))"

definition day :: "'d jsHost \<Rightarrow> 'd hijriCalendar \<Rightarrow> plainDate \<Rightarrow> error + int" where
  "day H this date = (case toHijri H this date of Inl e \<Rightarrow> Inl e | Inr h \<Rightarrow> Inr (hd h))"

definition daysInMonth :: "'d jsHost \<Rightarrow> 'd hijriCalendar \<Rightarrow> plainDate \<Rightarrow> error + int" where
  "daysInMonth H this date =
     (case toHijri H this date of Inl e \<Rightarrow> Inl e
      | Inr h \<Rightarrow> Inr (eng_daysInMonth (engine this) (hy h) (hm h)))"

text \<open>\<^verbatim>\<open>for (let m = 1; m <= 12; m++) total += this.engine.daysInMonth(hy, m)\<close>.\<close>

function daysInYear_loop :: "'d calendarEngine \<Rightarrow> int \<Rightarrow> int \<Rightarrow> int \<Rightarrow> int" where
  "daysInYear_loop e y m tot =
     (if m \<le> 12 then daysInYear_loop e y (m + 1) (tot + eng_daysInMonth e y m) else tot)"
  by pat_completeness auto
termination
  by (relation "measure (\<lambda>(e, y, m, tot). nat (13 - m))") auto

definition daysInYear :: "'d jsHost \<Rightarrow> 'd hijriCalendar \<Rightarrow> plainDate \<Rightarrow> error + int" where
  "daysInYear H this date =
     (case toHijri H this date of Inl e \<Rightarrow> Inl e
      | Inr h \<Rightarrow> Inr (daysInYear_loop (engine this) (hy h) 1 0))"

definition monthsInYear :: "'d jsHost \<Rightarrow> 'd hijriCalendar \<Rightarrow> plainDate \<Rightarrow> error + int" where
  "monthsInYear H this date = Inr 12"

definition inLeapYear :: "'d jsHost \<Rightarrow> 'd hijriCalendar \<Rightarrow> plainDate \<Rightarrow> error + bool" where
  "inLeapYear H this date =
     (case daysInYear H this date of Inl e \<Rightarrow> Inl e | Inr tot \<Rightarrow> Inr (tot = 355))"

definition dayOfWeek :: "'d jsHost \<Rightarrow> 'd hijriCalendar \<Rightarrow> plainDate \<Rightarrow> error + int" where
  "dayOfWeek H this date = Inr (plainDate_dayOfWeek date)"

text \<open>\<^verbatim>\<open>let total = hd; for (let m = 1; m < hm; m++) total += this.engine.daysInMonth(hy, m)\<close>.\<close>

function dayOfYear_loop :: "'d calendarEngine \<Rightarrow> int \<Rightarrow> int \<Rightarrow> int \<Rightarrow> int \<Rightarrow> int" where
  "dayOfYear_loop e y mo m tot =
     (if m < mo then dayOfYear_loop e y mo (m + 1) (tot + eng_daysInMonth e y m) else tot)"
  by pat_completeness auto
termination
  by (relation "measure (\<lambda>(e, y, mo, m, tot). nat (mo - m))") auto

definition dayOfYear :: "'d jsHost \<Rightarrow> 'd hijriCalendar \<Rightarrow> plainDate \<Rightarrow> error + int" where
  "dayOfYear H this date =
     (case toHijri H this date of Inl e \<Rightarrow> Inl e
      | Inr h \<Rightarrow> Inr (dayOfYear_loop (engine this) (hy h) (hm h) 1 (hd h)))"

text \<open>\<^verbatim>\<open>Math.ceil(this.dayOfYear(date) / 7)\<close>.\<close>

definition weekOfYear :: "'d jsHost \<Rightarrow> 'd hijriCalendar \<Rightarrow> plainDate \<Rightarrow> error + int" where
  "weekOfYear H this date =
     (case dayOfYear H this date of Inl e \<Rightarrow> Inl e | Inr n \<Rightarrow> Inr (- ((- n) div 7)))"

definition daysInWeek :: "'d jsHost \<Rightarrow> 'd hijriCalendar \<Rightarrow> plainDate \<Rightarrow> error + int" where
  "daysInWeek H this date = Inr 7"

subsection \<open>Arithmetic\<close>

text \<open>
  \<^verbatim>\<open>dateAdd\<close>. The third argument of the source, \<^verbatim>\<open>_options\<close>, is never read.
\<close>

definition dateAdd ::
  "'d jsHost \<Rightarrow> 'd hijriCalendar \<Rightarrow> plainDate \<Rightarrow> duration \<Rightarrow> addOptions option \<Rightarrow> error + plainDate"
where
  "dateAdd H this date dur options =
     (case toHijri H this date of
        Inl e \<Rightarrow> Inl e
      | Inr h \<Rightarrow>
          (case normalizeMonths (hy h + years dur) (hm h + months dur) of
             (newHy, newHm) \<Rightarrow>
               (let maxDay = eng_daysInMonth (engine this) newHy newHm;
                    clampedDay = min (hd h) maxDay
                in case fromHijri H this newHy newHm clampedDay of
                     Inl e \<Rightarrow> Inl e
                   | Inr intermediate \<Rightarrow>
                       (let dayDelta = days dur + weeks dur * 7
                        in if dayDelta \<noteq> 0 then plainDate_add H intermediate dayDelta
                           else Inr intermediate))))"




subsection \<open>Sample hosts and engines\<close>

text \<open>
  Concrete parameters on which the theorems below are run. A \<^verbatim>\<open>Date\<close> is its time
  value in minutes since 1970-01-01T00:00Z. \<open>hostAt offset\<close> is a host whose local time is
  UTC plus \<open>offset\<close> minutes: \<^verbatim>\<open>new Date(y, m, d)\<close> is local midnight (a year from 0 to 99
  counts from 1900, as the \<^verbatim>\<open>Date\<close> constructor has it), the getters read the UTC day.
  Its \<^verbatim>\<open>date.add({ days })\<close> is exact within Temporal's range of \<open>10\<^sup>8\<close> days around the
  epoch and throws outside; its \<^verbatim>\<open>Temporal.Duration\<close> constructor throws on fields of
  mixed signs, as Temporal's does.
\<close>

definition temporalAddDays :: "plainDate \<Rightarrow> int \<Rightarrow> error + plainDate" where
  "temporalAddDays date n =
     (let z = epochDays date + n
      in if - 100000001 \<le> z \<and> z \<le> 100000000 then Inr (civilFromDays z)
         else Inl (RangeError ''date value out of range''))"

definition temporalDuration :: "int \<Rightarrow> int \<Rightarrow> int \<Rightarrow> int \<Rightarrow> error + duration" where
  "temporalDuration y m w d =
     (if (y < 0 \<or> m < 0 \<or> w < 0 \<or> d < 0) \<and> (0 < y \<or> 0 < m \<or> 0 < w \<or> 0 < d)
      then Inl (RangeError ''mixed-sign values not allowed as duration fields'')
      else Inr \<lparr>years = y, months = m, weeks = w, days = d\<rparr>)"

definition hostAt :: "int \<Rightarrow> int jsHost" where
  "hostAt offset =
     \<lparr>newDate = (\<lambda>y m d.
          daysFromCivil (if 0 \<le> y \<and> y \<le> 99 then 1900 + y else y) (m + 1) d * 1440 - offset),
      getUTCFullYear = (\<lambda>t. isoYear (civilFromDays (t div 1440))),
      getUTCMonth = (\<lambda>t. isoMonth (civilFromDays (t div 1440)) - 1),
      getUTCDate = (\<lambda>t. isoDay (civilFromDays (t div 1440))),
      plainDate_add = temporalAddDays,
      newDuration = temporalDuration\<rparr>"

text \<open>
  \<open>tabularEngine\<close>: a bounded engine (years 1318 to 1500) of a schematic lunar calendar:
  odd months have 30 days, even months 29, every year 354; 1 Ramadan 1444 is 2023-03-23.
  It reads the UTC day of the \<^verbatim>\<open>Date\<close> it is given and answers with a \<^verbatim>\<open>Date\<close> at UTC
  midnight.
\<close>

definition tabularDaysInMonth :: "int \<Rightarrow> int \<Rightarrow> int" where
  "tabularDaysInMonth y m = (if m mod 2 = 1 then 30 else 29)"

definition tabularToHijri :: "int \<Rightarrow> hijriDate option" where
  "tabularToHijri t =
     (let n = t div 1440 + 491619;
          y = n div 354 + 1;
          r = n mod 354;
          p = r div 59;
          q = r mod 59
      in if 1318 \<le> y \<and> y \<le> 1500
         then Some \<lparr>hy = y, hm = 2 * p + (if q < 30 then 1 else 2),
                     hd = (if q < 30 then q else q - 30) + 1\<rparr>
         else None)"

definition tabularToGregorian :: "int \<Rightarrow> int \<Rightarrow> int \<Rightarrow> int option" where
  "tabularToGregorian y m d =
     (if 1318 \<le> y \<and> y \<le> 1500 \<and> 1 \<le> m \<and> m \<le> 12 \<and> 1 \<le> d \<and> d \<le> tabularDaysInMonth y m
      then Some ((354 * (y - 1) + 59 * ((m - 1) div 2) + (if m mod 2 = 1 then 0 else 30)
                  + (d - 1) - 491619) * 1440)
      else None)"

definition tabularEngine :: "int calendarEngine" where
  "tabularEngine =
     \<lparr>eng_id = ''tab'', eng_toHijri = tabularToHijri, eng_toGregorian = tabularToGregorian,
      eng_daysInMonth = tabularDaysInMonth\<rparr>"

text \<open>
  \<open>thirtyEngine\<close>: an unbounded engine whose months all have 30 days (360 days a year),
  with the same anchor day.
\<close>

definition thirtyEngine :: "int calendarEngine" where
  "thirtyEngine =
     \<lparr>eng_id = ''thirty'',
      eng_toHijri = (\<lambda>t. let n = t div 1440 + 500281
                          in Some \<lparr>hy = n div 360 + 1, hm = (n mod 360) div 30 + 1,
                                    hd = n mod 30 + 1\<rparr>),
      eng_toGregorian = (\<lambda>y m d. Some ((360 * (y - 1) + 30 * (m - 1) + (d - 1) - 500281) * 1440)),
      eng_daysInMonth = (\<lambda>y m. 30)\<rparr>"

subsection \<open>Contracts of the engine, and the differencing rule as the specification words it\<close>

text \<open>Every month of the lunar year \<open>y\<close> has 29 or 30 days (specification, section 3).\<close>

definition monthLengths29or30 :: "'d calendarEngine \<Rightarrow> int \<Rightarrow> bool" where
  "monthLengths29or30 e y = (\<forall>m \<in> {1..12}. eng_daysInMonth e y m = 29 \<or> eng_daysInMonth e y m = 30)"







subsection \<open>Properties of the month normalisation\<close>

text \<open>The loops are unfolded one step at a time, by the conditional equations below.\<close>

declare carryMonths.simps [simp del] borrowMonths.simps [simp del] decimal.simps [simp del]
  daysInYear_loop.simps [simp del] dayOfYear_loop.simps [simp del]


lemma carryMonths_stop: "newHm \<le> 12 \<Longrightarrow> carryMonths newHy newHm = (newHy, newHm)"
  by (subst carryMonths.simps) simp


lemma borrowMonths_stop: "1 \<le> newHm \<Longrightarrow> borrowMonths newHy newHm = (newHy, newHm)"
  by (subst borrowMonths.simps) simp







lemma normalizeMonths_in_range: "1 \<le> m \<Longrightarrow> m \<le> 12 \<Longrightarrow> normalizeMonths y m = (y, m)"
  by (simp add: normalizeMonths_def carryMonths_stop borrowMonths_stop)

subsection \<open>Properties of the loops\<close>


lemma decimal_small: "n < 10 \<Longrightarrow> decimal n = [digitChar n]"
  by (subst decimal.simps) simp

lemma decimal_large: "10 \<le> n \<Longrightarrow> decimal n = decimal (n div 10) @ [digitChar (n mod 10)]"
  by (subst decimal.simps) simp

lemma daysInYear_loop_step:
  "m \<le> 12 \<Longrightarrow> daysInYear_loop e y m tot = daysInYear_loop e y (m + 1) (tot + eng_daysInMonth e y m)"
  by (subst daysInYear_loop.simps) simp

lemma daysInYear_loop_stop: "12 < m \<Longrightarrow> daysInYear_loop e y m tot = tot"
  by (subst daysInYear_loop.simps) simp

lemma dayOfYear_loop_step:
  "m < mo \<Longrightarrow> dayOfYear_loop e y mo m tot = dayOfYear_loop e y mo (m + 1) (tot + eng_daysInMonth e y m)"
  by (subst dayOfYear_loop.simps) simp

lemma dayOfYear_loop_stop: "mo \<le> m \<Longrightarrow> dayOfYear_loop e y mo m tot = tot"
  by (subst dayOfYear_loop.simps) simp

lemma int_interval_first: "(m::int) \<le> n \<Longrightarrow> {m..n} = insert m {m + 1..n}"
  by auto

lemma sum_int_interval_first:
  fixes f :: "int \<Rightarrow> int"
  assumes "m \<le> n"
  shows "(\<Sum>k = m..n. f k) = f m + (\<Sum>k = m + 1..n. f k)"
proof -
  have "(\<Sum>k = m..n. f k) = sum f (insert m {m + 1..n})"
    using assms by (simp add: int_interval_first [symmetric])
  also have "\<dots> = f m + (\<Sum>k = m + 1..n. f k)"
    by (rule sum.insert) auto
  finally show ?thesis .
qed

lemma daysInYear_loop_sum:
  "daysInYear_loop e y m tot = tot + (\<Sum>k = m..12. eng_daysInMonth e y k)"
proof (induction e y m tot rule: daysInYear_loop.induct)
  case (1 e y m tot)
  show ?case
  proof (cases "m \<le> 12")
    case True
    then have "daysInYear_loop e y m tot
        = daysInYear_loop e y (m + 1) (tot + eng_daysInMonth e y m)"
      by (rule daysInYear_loop_step)
    also have "\<dots> = tot + eng_daysInMonth e y m + (\<Sum>k = m + 1..12. eng_daysInMonth e y k)"
      using "1.IH" True by simp
    also have "\<dots> = tot + (\<Sum>k = m..12. eng_daysInMonth e y k)"
      using True by (simp add: sum_int_interval_first)
    finally show ?thesis .
  next
    case False
    then show ?thesis by (simp add: daysInYear_loop_stop)
  qed
qed

lemma dayOfYear_loop_sum:
  "dayOfYear_loop e y mo m tot = tot + (\<Sum>k = m..mo - 1. eng_daysInMonth e y k)"
proof (induction e y mo m tot rule: dayOfYear_loop.induct)
  case (1 e y mo m tot)
  show ?case
  proof (cases "m < mo")
    case True
    then have "dayOfYear_loop e y mo m tot
        = dayOfYear_loop e y mo (m + 1) (tot + eng_daysInMonth e y m)"
      by (rule dayOfYear_loop_step)
    also have "\<dots> = tot + eng_daysInMonth e y m + (\<Sum>k = m + 1..mo - 1. eng_daysInMonth e y k)"
      using "1.IH" True by simp
    also have "\<dots> = tot + (\<Sum>k = m..mo - 1. eng_daysInMonth e y k)"
      using True by (simp add: sum_int_interval_first)
    finally show ?thesis .
  next
    case False
    then show ?thesis by (simp add: dayOfYear_loop_stop)
  qed
qed

lemma year_sum_long_months:
  assumes "monthLengths29or30 e y"
  shows "(\<Sum>m = 1..12. eng_daysInMonth e y m)
         = 348 + int (card {m \<in> {1..12}. eng_daysInMonth e y m = 30})"
proof -
  have "(\<Sum>m = 1..12. eng_daysInMonth e y m)
        = (\<Sum>m \<in> {1..12::int}. 29 + (if eng_daysInMonth e y m = 30 then 1 else 0))"
    using assms by (intro sum.cong) (auto simp: monthLengths29or30_def)
  also have "\<dots> = (\<Sum>m \<in> {1..12::int}. 29) + (\<Sum>m \<in> {1..12::int}. if eng_daysInMonth e y m = 30 then 1 else 0)"
    by (rule sum.distrib)
  also have "(\<Sum>m \<in> {1..12::int}. if eng_daysInMonth e y m = 30 then 1 else (0::int))
             = int (card {m \<in> {1..12}. eng_daysInMonth e y m = 30})"
    by (simp add: sum.If_cases Int_def)
  finally show ?thesis by simp
qed

lemma long_months_le_12: "card {m \<in> {1..12::int}. P m} \<le> 12"
proof -
  have "card {m \<in> {1..12::int}. P m} \<le> card {1..12::int}"
    by (rule card_mono) auto
  then show ?thesis by simp
qed

subsection \<open>Properties of the bridge\<close>





subsection \<open>Properties of the metrics and of the arithmetic\<close>

lemma sum_int_interval_split:
  fixes f :: "int \<Rightarrow> int"
  assumes "1 \<le> k" and "k \<le> 12"
  shows "(\<Sum>m = 1..12. f m) = (\<Sum>m = 1..k - 1. f m) + f k + (\<Sum>m = k + 1..12. f m)"
proof -
  have un: "{1..12::int} = {1..k - 1} \<union> {k..12}" using assms by auto
  have "(\<Sum>m = 1..12. f m) = (\<Sum>m = 1..k - 1. f m) + (\<Sum>m = k..12. f m)"
    unfolding un by (rule sum.union_disjoint) auto
  also have "(\<Sum>m = k..12. f m) = f k + (\<Sum>m = k + 1..12. f m)"
    using assms by (simp add: sum_int_interval_first)
  finally show ?thesis by simp
qed

lemma daysInYear_Inr:
  "toHijri H this date = Inr h \<Longrightarrow>
   daysInYear H this date = Inr (\<Sum>m = 1..12. eng_daysInMonth (engine this) (hy h) m)"
  by (simp add: daysInYear_def daysInYear_loop_sum)

lemma dayOfYear_Inr:
  "toHijri H this date = Inr h \<Longrightarrow>
   dayOfYear H this date
     = Inr ((\<Sum>m = 1..hm h - 1. eng_daysInMonth (engine this) (hy h) m) + hd h)"
  by (simp add: dayOfYear_def dayOfYear_loop_sum)

lemma month_lengths_nonneg:
  assumes "monthLengths29or30 e y" and "A \<subseteq> {1..12}"
  shows "0 \<le> (\<Sum>m \<in> A. eng_daysInMonth e y m)"
proof (rule sum_nonneg)
  fix m assume "m \<in> A"
  with assms have "eng_daysInMonth e y m = 29 \<or> eng_daysInMonth e y m = 30"
    unfolding monthLengths29or30_def by blast
  then show "0 \<le> eng_daysInMonth e y m" by auto
qed

lemma dateAdd_unfold:
  assumes "toHijri H this date = Inr h"
    and "normalizeMonths (hy h + years dur) (hm h + months dur) = (y', m')"
  shows "dateAdd H this date dur options =
     (case fromHijri H this y' m' (min (hd h) (eng_daysInMonth (engine this) y' m')) of
        Inl e \<Rightarrow> Inl e
      | Inr intermediate \<Rightarrow>
          (if days dur + weeks dur * 7 \<noteq> 0
           then plainDate_add H intermediate (days dur + weeks dur * 7)
           else Inr intermediate))"
  using assms by (simp add: dateAdd_def Let_def split: sum.splits)


subsection \<open>The sample engines at work\<close>

lemma tab_toHijri_0323:
  "toHijri (hostAt 0) (HijriCalendar tabularEngine) \<lparr>isoYear = 2023, isoMonth = 3, isoDay = 23\<rparr>
   = Inr \<lparr>hy = 1444, hm = 9, hd = 1\<rparr>"
  by code_simp


lemma tab_month_lengths: "monthLengths29or30 (engine (HijriCalendar tabularEngine)) y"
  by (simp add: monthLengths29or30_def HijriCalendar_def tabularEngine_def tabularDaysInMonth_def)

lemma tab_year_sum: "(\<Sum>m = 1..12. eng_daysInMonth (engine (HijriCalendar tabularEngine)) 1444 m) = 354"
  by code_simp

lemma thirty_toHijri_0323:
  "toHijri (hostAt 0) (HijriCalendar thirtyEngine) \<lparr>isoYear = 2023, isoMonth = 3, isoDay = 23\<rparr>
     = Inr \<lparr>hy = 1444, hm = 9, hd = 1\<rparr>"
  by code_simp

lemma thirty_month_lengths: "monthLengths29or30 (engine (HijriCalendar thirtyEngine)) y"
  by (simp add: monthLengths29or30_def HijriCalendar_def thirtyEngine_def)

lemma thirty_daysInYear:
  "daysInYear (hostAt 0) (HijriCalendar thirtyEngine) \<lparr>isoYear = 2023, isoMonth = 3, isoDay = 23\<rparr>
     = Inr 360"
  by code_simp

lemma tab_toHijri_0221:
  "toHijri (hostAt 0) (HijriCalendar tabularEngine) \<lparr>isoYear = 2023, isoMonth = 2, isoDay = 21\<rparr>
   = Inr \<lparr>hy = 1444, hm = 7, hd = 30\<rparr>"
  by code_simp

lemma tab_dayOfYear_0221:
  "dayOfYear (hostAt 0) (HijriCalendar tabularEngine) \<lparr>isoYear = 2023, isoMonth = 2, isoDay = 21\<rparr>
   = Inr 207"
  by code_simp

lemma tab_daysInYear_0221:
  "daysInYear (hostAt 0) (HijriCalendar tabularEngine) \<lparr>isoYear = 2023, isoMonth = 2, isoDay = 21\<rparr>
   = Inr 354"
  by code_simp

lemma tab_days_1444_7: "eng_daysInMonth (engine (HijriCalendar tabularEngine)) 1444 7 = 30"
  by code_simp

lemma tab_fromHijri_1444_7_30:
  "fromHijri (hostAt 0) (HijriCalendar tabularEngine) 1444 7 30
   = Inr \<lparr>isoYear = 2023, isoMonth = 2, isoDay = 21\<rparr>"
  by code_simp







lemma tab_dateAdd_100_years:
  "dateAdd (hostAt 0) (HijriCalendar tabularEngine) \<lparr>isoYear = 2023, isoMonth = 3, isoDay = 23\<rparr>
      \<lparr>years = 100, months = 0, weeks = 0, days = 0\<rparr> (Some \<lparr>overflow = Some Reject\<rparr>)
   = Inl (RangeError ''Hijri date 1544/9/1 is out of range for the hijri-tab calendar'')"
  by code_simp

lemma tab_dateAdd_month_week:
  "dateAdd (hostAt 0) (HijriCalendar tabularEngine) \<lparr>isoYear = 2023, isoMonth = 2, isoDay = 21\<rparr>
      \<lparr>years = 0, months = 1, weeks = 1, days = 3\<rparr> None
   = Inr \<lparr>isoYear = 2023, isoMonth = 4, isoDay = 1\<rparr>"
  by code_simp

lemma tab_year_1800:
  "year (hostAt 0) (HijriCalendar tabularEngine) \<lparr>isoYear = 1800, isoMonth = 1, isoDay = 1\<rparr>
   = Inl (RangeError ''Date 1800-01-01 is out of range for the hijri-tab calendar'')"
  by code_simp

lemma weekday_1800: "plainDate_dayOfWeek \<lparr>isoYear = 1800, isoMonth = 1, isoDay = 1\<rparr> = 3"
  by code_simp










section \<open>The claims\<close>

subsection \<open>C1: round trip through the bridge\<close>




subsection \<open>C2: dateAdd clamps the day\<close>




subsection \<open>C3: month normalisation\<close>



subsection \<open>C4: dateUntil in years and months\<close>



subsection \<open>C5: daysInYear and inLeapYear\<close>

text \<open>
  Claim C5 says that \<open>daysInYear\<close> is the sum of the twelve month lengths, that this sum is
  always 354 or 355 given that every month has 29 or 30 days, and that \<open>inLeapYear\<close> is
  true exactly for 355. The middle part does not follow: twelve lengths of 29 or 30 add
  up to anything from 348 to 360. An engine whose months all have 30 days gives 360.
\<close>

theorem daysInYear_354_355_counterexample:
  "toHijri (hostAt 0) (HijriCalendar thirtyEngine) \<lparr>isoYear = 2023, isoMonth = 3, isoDay = 23\<rparr>
     = Inr \<lparr>hy = 1444, hm = 9, hd = 1\<rparr>
   \<and> monthLengths29or30 (engine (HijriCalendar thirtyEngine)) 1444
   \<and> daysInYear (hostAt 0) (HijriCalendar thirtyEngine) \<lparr>isoYear = 2023, isoMonth = 3, isoDay = 23\<rparr>
     = Inr 360"
  by (simp add: thirty_toHijri_0323 thirty_month_lengths thirty_daysInYear)

text \<open>
  C5 as amended: for a date the engine converts to \<open>h\<close>, \<open>daysInYear\<close> is the sum of the
  twelve month lengths of year \<open>hy h\<close>; when each of them is 29 or 30 the sum is 348 plus
  the number of 30-day months, hence between 348 and 360 (354 or 355 exactly when the
  engine gives the year six or seven 30-day months); \<open>inLeapYear\<close> is true exactly when
  the sum is 355.
\<close>

theorem daysInYear_sum_of_month_lengths:
  assumes "toHijri H this date = Inr h" and "monthLengths29or30 (engine this) (hy h)"
  shows "daysInYear H this date = Inr (\<Sum>m = 1..12. eng_daysInMonth (engine this) (hy h) m)
    \<and> (\<Sum>m = 1..12. eng_daysInMonth (engine this) (hy h) m)
        = 348 + int (card {m \<in> {1..12}. eng_daysInMonth (engine this) (hy h) m = 30})
    \<and> 348 \<le> (\<Sum>m = 1..12. eng_daysInMonth (engine this) (hy h) m)
    \<and> (\<Sum>m = 1..12. eng_daysInMonth (engine this) (hy h) m) \<le> 360
    \<and> inLeapYear H this date
        = Inr ((\<Sum>m = 1..12. eng_daysInMonth (engine this) (hy h) m) = 355)"
proof -
  let ?s = "\<Sum>m = 1..12. eng_daysInMonth (engine this) (hy h) m"
  have d: "daysInYear H this date = Inr ?s" using assms(1) by (rule daysInYear_Inr)
  have c: "?s = 348 + int (card {m \<in> {1..12}. eng_daysInMonth (engine this) (hy h) m = 30})"
    using assms(2) by (rule year_sum_long_months)
  have "card {m \<in> {1..12::int}. eng_daysInMonth (engine this) (hy h) m = 30} \<le> 12"
    by (rule long_months_le_12)
  with c have b: "348 \<le> ?s" "?s \<le> 360" by simp_all
  have l: "inLeapYear H this date = Inr (?s = 355)" by (simp add: inLeapYear_def d)
  from d c b l show ?thesis by blast
qed

theorem daysInYear_sum_of_month_lengths_witness:
  "toHijri (hostAt 0) (HijriCalendar tabularEngine) \<lparr>isoYear = 2023, isoMonth = 3, isoDay = 23\<rparr>
     = Inr \<lparr>hy = 1444, hm = 9, hd = 1\<rparr>
   \<and> monthLengths29or30 (engine (HijriCalendar tabularEngine)) 1444
   \<and> daysInYear (hostAt 0) (HijriCalendar tabularEngine) \<lparr>isoYear = 2023, isoMonth = 3, isoDay = 23\<rparr>
     = Inr 354
   \<and> inLeapYear (hostAt 0) (HijriCalendar tabularEngine) \<lparr>isoYear = 2023, isoMonth = 3, isoDay = 23\<rparr>
     = Inr False"
  using daysInYear_sum_of_month_lengths [OF tab_toHijri_0323 tab_month_lengths]
  by (simp add: tab_toHijri_0323 tab_month_lengths tab_year_sum)

subsection \<open>C6: dayOfYear\<close>

text \<open>
  Claim C6: for a date the engine converts to a lunar coordinate \<open>h\<close> (month from 1 to 12,
  every month of the year 29 or 30 days long, as the specification's data model has
  them) with \<open>1 \<le> hd h \<le> daysInMonth (hy h) (hm h)\<close>, \<open>dayOfYear\<close> is the sum of the
  lengths of the months before \<open>hm h\<close> plus \<open>hd h\<close>, and lies between 1 and \<open>daysInYear\<close>.
\<close>

theorem dayOfYear_sum_and_bounds:
  assumes "toHijri H this date = Inr h"
    and "1 \<le> hm h" and "hm h \<le> 12"
    and "monthLengths29or30 (engine this) (hy h)"
    and "1 \<le> hd h" and "hd h \<le> eng_daysInMonth (engine this) (hy h) (hm h)"
  shows "\<exists>n tot. dayOfYear H this date = Inr n \<and> daysInYear H this date = Inr tot
      \<and> n = (\<Sum>m = 1..hm h - 1. eng_daysInMonth (engine this) (hy h) m) + hd h
      \<and> 1 \<le> n \<and> n \<le> tot"
proof -
  let ?f = "eng_daysInMonth (engine this) (hy h)"
  let ?before = "\<Sum>m = 1..hm h - 1. ?f m"
  let ?after = "\<Sum>m = hm h + 1..12. ?f m"
  have n: "dayOfYear H this date = Inr (?before + hd h)"
    using assms(1) by (rule dayOfYear_Inr)
  have t: "daysInYear H this date = Inr (\<Sum>m = 1..12. ?f m)"
    using assms(1) by (rule daysInYear_Inr)
  have split: "(\<Sum>m = 1..12. ?f m) = ?before + ?f (hm h) + ?after"
    using assms(2,3) by (rule sum_int_interval_split)
  have b: "0 \<le> ?before"
    using assms(4) by (rule month_lengths_nonneg) (use assms(3) in auto)
  have a: "0 \<le> ?after"
    using assms(4) by (rule month_lengths_nonneg) (use assms(2) in auto)
  have "1 \<le> ?before + hd h" using b assms(5) by simp
  moreover have "?before + hd h \<le> (\<Sum>m = 1..12. ?f m)"
    using split a assms(6) by simp
  ultimately show ?thesis using n t by blast
qed

theorem dayOfYear_sum_and_bounds_witness:
  "toHijri (hostAt 0) (HijriCalendar tabularEngine) \<lparr>isoYear = 2023, isoMonth = 2, isoDay = 21\<rparr>
     = Inr \<lparr>hy = 1444, hm = 7, hd = 30\<rparr>
   \<and> monthLengths29or30 (engine (HijriCalendar tabularEngine)) 1444
   \<and> (30::int) \<le> eng_daysInMonth (engine (HijriCalendar tabularEngine)) 1444 7
   \<and> dayOfYear (hostAt 0) (HijriCalendar tabularEngine) \<lparr>isoYear = 2023, isoMonth = 2, isoDay = 21\<rparr>
     = Inr 207
   \<and> daysInYear (hostAt 0) (HijriCalendar tabularEngine) \<lparr>isoYear = 2023, isoMonth = 2, isoDay = 21\<rparr>
     = Inr 354
   \<and> 207 = (\<Sum>m = 1..7 - 1. eng_daysInMonth (engine (HijriCalendar tabularEngine)) 1444 m) + 30
   \<and> (1::int) \<le> 207 \<and> (207::int) \<le> 354"
proof -
  let ?h = "\<lparr>hy = 1444, hm = 7, hd = 30\<rparr>"
  have ml: "monthLengths29or30 (engine (HijriCalendar tabularEngine)) (hy ?h)"
    by (rule tab_month_lengths)
  have dim: "hd ?h \<le> eng_daysInMonth (engine (HijriCalendar tabularEngine)) (hy ?h) (hm ?h)"
    by (simp add: tab_days_1444_7)
  from dayOfYear_sum_and_bounds [OF tab_toHijri_0221 _ _ ml _ dim]
  obtain n tot where
    "dayOfYear (hostAt 0) (HijriCalendar tabularEngine) \<lparr>isoYear = 2023, isoMonth = 2, isoDay = 21\<rparr> = Inr n"
    "daysInYear (hostAt 0) (HijriCalendar tabularEngine) \<lparr>isoYear = 2023, isoMonth = 2, isoDay = 21\<rparr> = Inr tot"
    "n = (\<Sum>m = 1..hm ?h - 1. eng_daysInMonth (engine (HijriCalendar tabularEngine)) (hy ?h) m) + hd ?h"
    "1 \<le> n" "n \<le> tot"
    by auto
  then show ?thesis
    using ml dim by (simp add: tab_toHijri_0221 tab_dayOfYear_0221 tab_daysInYear_0221)
qed

subsection \<open>C7: adding the zero duration\<close>

text \<open>
  Claim C7: for a date the engine converts to \<open>h\<close>, under the round-trip contract at that
  date (\<open>fromHijri\<close> of \<open>h\<close> is the date), with the month of \<open>h\<close> from 1 to 12 and its day not
  beyond its month's length, \<open>dateAdd\<close> of the zero duration returns the date, whatever the
  options.
\<close>

theorem dateAdd_zero_duration_identity:
  assumes "toHijri H this date = Inr h"
    and "fromHijri H this (hy h) (hm h) (hd h) = Inr date"
    and "1 \<le> hm h" and "hm h \<le> 12"
    and "hd h \<le> eng_daysInMonth (engine this) (hy h) (hm h)"
  shows "dateAdd H this date \<lparr>years = 0, months = 0, weeks = 0, days = 0\<rparr> options = Inr date"
proof -
  have n: "normalizeMonths (hy h + years \<lparr>years = 0, months = 0, weeks = 0, days = 0\<rparr>)
             (hm h + months \<lparr>years = 0, months = 0, weeks = 0, days = 0\<rparr>) = (hy h, hm h)"
    using assms(3,4) by (simp add: normalizeMonths_in_range)
  have m: "min (hd h) (eng_daysInMonth (engine this) (hy h) (hm h)) = hd h"
    using assms(5) by simp
  show ?thesis
    unfolding dateAdd_unfold [OF assms(1) n] m by (simp add: assms(2))
qed

theorem dateAdd_zero_duration_identity_witness:
  "toHijri (hostAt 0) (HijriCalendar tabularEngine) \<lparr>isoYear = 2023, isoMonth = 2, isoDay = 21\<rparr>
     = Inr \<lparr>hy = 1444, hm = 7, hd = 30\<rparr>
   \<and> fromHijri (hostAt 0) (HijriCalendar tabularEngine) 1444 7 30
     = Inr \<lparr>isoYear = 2023, isoMonth = 2, isoDay = 21\<rparr>
   \<and> (30::int) \<le> eng_daysInMonth (engine (HijriCalendar tabularEngine)) 1444 7
   \<and> dateAdd (hostAt 0) (HijriCalendar tabularEngine) \<lparr>isoYear = 2023, isoMonth = 2, isoDay = 21\<rparr>
         \<lparr>years = 0, months = 0, weeks = 0, days = 0\<rparr> (Some \<lparr>overflow = Some Reject\<rparr>)
     = Inr \<lparr>isoYear = 2023, isoMonth = 2, isoDay = 21\<rparr>"
proof -
  let ?h = "\<lparr>hy = 1444, hm = 7, hd = 30\<rparr>"
  have rt: "fromHijri (hostAt 0) (HijriCalendar tabularEngine) (hy ?h) (hm ?h) (hd ?h)
      = Inr \<lparr>isoYear = 2023, isoMonth = 2, isoDay = 21\<rparr>"
    by (simp add: tab_fromHijri_1444_7_30)
  have dim: "hd ?h \<le> eng_daysInMonth (engine (HijriCalendar tabularEngine)) (hy ?h) (hm ?h)"
    by (simp add: tab_days_1444_7)
  from dateAdd_zero_duration_identity [OF tab_toHijri_0221 rt _ _ dim,
      of "Some \<lparr>overflow = Some Reject\<rparr>"]
  show ?thesis
    by (simp add: tab_toHijri_0221 tab_fromHijri_1444_7_30 tab_days_1444_7)
qed

subsection \<open>C8: the only error is OutOfRange\<close>



subsection \<open>C9: the overflow option\<close>

text \<open>
  Claim C9 says that \<open>dateAdd\<close> with \<open>reject\<close>, with \<open>constrain\<close> and without options
  returns the same solar date, and that the \<open>reject\<close> request never fails. The option is
  indeed never read, but the call can fail all the same: a date of year 1444 plus 100
  years leaves the bounded sample engine's domain, and \<open>dateAdd\<close> throws under \<open>reject\<close>
  (as it does under \<open>constrain\<close>).
\<close>

theorem dateAdd_reject_never_fails_counterexample:
  "toHijri (hostAt 0) (HijriCalendar tabularEngine) \<lparr>isoYear = 2023, isoMonth = 3, isoDay = 23\<rparr>
     = Inr \<lparr>hy = 1444, hm = 9, hd = 1\<rparr>
   \<and> dateAdd (hostAt 0) (HijriCalendar tabularEngine) \<lparr>isoYear = 2023, isoMonth = 3, isoDay = 23\<rparr>
        \<lparr>years = 100, months = 0, weeks = 0, days = 0\<rparr> (Some \<lparr>overflow = Some Reject\<rparr>)
     = Inl (RangeError ''Hijri date 1544/9/1 is out of range for the hijri-tab calendar'')"
  by (simp add: tab_toHijri_0323 tab_dateAdd_100_years)

text \<open>
  C9 as amended: for every date, duration and options value, \<open>dateAdd\<close> has the outcome
  (a solar date, or an error) of the call without options: with \<open>reject\<close>, with \<open>constrain\<close>
  and without options the three outcomes are one, so a \<open>reject\<close> request resolves as the
  clamp and fails only when the call without options fails.
\<close>

theorem dateAdd_ignores_overflow_option:
  "dateAdd H this date dur (Some \<lparr>overflow = Some Reject\<rparr>) = dateAdd H this date dur None
   \<and> dateAdd H this date dur (Some \<lparr>overflow = Some Constrain\<rparr>) = dateAdd H this date dur None
   \<and> dateAdd H this date dur options = dateAdd H this date dur None"
  by (simp add: dateAdd_def)

theorem dateAdd_ignores_overflow_option_witness:
  "dateAdd (hostAt 0) (HijriCalendar tabularEngine) \<lparr>isoYear = 2023, isoMonth = 2, isoDay = 21\<rparr>
      \<lparr>years = 0, months = 1, weeks = 1, days = 3\<rparr> (Some \<lparr>overflow = Some Reject\<rparr>)
     = Inr \<lparr>isoYear = 2023, isoMonth = 4, isoDay = 1\<rparr>
   \<and> dateAdd (hostAt 0) (HijriCalendar tabularEngine) \<lparr>isoYear = 2023, isoMonth = 2, isoDay = 21\<rparr>
      \<lparr>years = 0, months = 1, weeks = 1, days = 3\<rparr> (Some \<lparr>overflow = Some Constrain\<rparr>)
     = Inr \<lparr>isoYear = 2023, isoMonth = 4, isoDay = 1\<rparr>
   \<and> dateAdd (hostAt 0) (HijriCalendar tabularEngine) \<lparr>isoYear = 2023, isoMonth = 2, isoDay = 21\<rparr>
      \<lparr>years = 0, months = 1, weeks = 1, days = 3\<rparr> None
     = Inr \<lparr>isoYear = 2023, isoMonth = 4, isoDay = 1\<rparr>"
  using dateAdd_ignores_overflow_option [of "hostAt 0" "HijriCalendar tabularEngine"
      "\<lparr>isoYear = 2023, isoMonth = 2, isoDay = 21\<rparr>"
      "\<lparr>years = 0, months = 1, weeks = 1, days = 3\<rparr>" None]
  by (simp add: tab_dateAdd_month_week)

subsection \<open>C10: accessors that never consult the engine\<close>

text \<open>
  Claim C10: for every date, engine and host, also where \<open>year\<close> throws, \<open>dayOfWeek\<close>
  returns the date's own ISO weekday (from 1 to 7), \<open>monthsInYear\<close> returns 12 and
  \<open>daysInWeek\<close> returns 7; none of them can throw.
\<close>

theorem engine_free_accessors:
  "dayOfWeek H this date = Inr (plainDate_dayOfWeek date)
   \<and> 1 \<le> plainDate_dayOfWeek date \<and> plainDate_dayOfWeek date \<le> 7
   \<and> monthsInYear H this date = Inr 12
   \<and> daysInWeek H this date = Inr 7"
  by (simp add: dayOfWeek_def monthsInYear_def daysInWeek_def plainDate_dayOfWeek_def)

theorem engine_free_accessors_witness:
  "year (hostAt 0) (HijriCalendar tabularEngine) \<lparr>isoYear = 1800, isoMonth = 1, isoDay = 1\<rparr>
     = Inl (RangeError ''Date 1800-01-01 is out of range for the hijri-tab calendar'')
   \<and> dayOfWeek (hostAt 0) (HijriCalendar tabularEngine) \<lparr>isoYear = 1800, isoMonth = 1, isoDay = 1\<rparr>
     = Inr 3
   \<and> monthsInYear (hostAt 0) (HijriCalendar tabularEngine) \<lparr>isoYear = 1800, isoMonth = 1, isoDay = 1\<rparr>
     = Inr 12
   \<and> daysInWeek (hostAt 0) (HijriCalendar tabularEngine) \<lparr>isoYear = 1800, isoMonth = 1, isoDay = 1\<rparr>
     = Inr 7"
  using engine_free_accessors [of "hostAt 0" "HijriCalendar tabularEngine"
      "\<lparr>isoYear = 1800, isoMonth = 1, isoDay = 1\<rparr>"]
  by (simp add: tab_year_1800 weekday_1800)

end
